theory Spec2Isabelle
  imports Complex_Main "HOL-Library.Sublist"
begin

section \<open>Conventions of the embedding\<close>

text \<open>
  The two Mongoose models of the repository, \<open>DCA\<close> and \<open>Case\<close>, are embedded as records
  holding the schema fields that the virtuals, the pre-save middleware and the instance
  methods of the source read or write; every other schema field lives in the extension
  part of the record and is never touched.

  \<^item> A JavaScript \<open>Date\<close> is its time value, whole milliseconds since the epoch. A
    \<open>Date\<close> object is truthy, so \<open>!d\<close> holds exactly for an unset field: \<open>None\<close>.
  \<^item> Case counts and capacities are whole numbers: \<open>int\<close>. Money amounts are \<open>rat\<close>:
    the arithmetic of the source is read exactly, rounding of doubles is left out.
  \<^item> \<open>new Date()\<close> and the \<open>countDocuments\<close> query are inputs of the operation that
    performs them.
  \<^item> \<open>save()\<close> of a DCA is the chain of the schema's own pre-save middleware, in the
    order of registration, applied to the document in memory. The schema's \<open>min\<close>
    validators of the capacity block, without which no save of a DCA goes through, appear
    as the predicate \<open>capacityValid\<close>.
  \<^item> \<open>save()\<close> of a Case is everything the Case schema makes it do: the validators of
    the schema run first and reject the save with a validation error, leaving the
    document as the caller handed it over; otherwise \<open>timestamps: true\<close> stamps the
    document and the pre-save middleware runs in the order of registration.
  \<^item> A method that can fail returns the error, if any, next to the document as the call
    leaves it in memory.
\<close>

type_synonym date = int

datatype error = Error string | ValidationError

section \<open>The DCA model\<close>

datatype DcaStatus =
  DCA_ACTIVE | DCA_INACTIVE | DCA_SUSPENDED | DCA_TERMINATED | DCA_ONBOARDING

datatype ContractStatus =
  CONTRACT_ACTIVE | CONTRACT_INACTIVE | CONTRACT_SUSPENDED | CONTRACT_TERMINATED
  | CONTRACT_PENDING

datatype LicenseStatus =
  LICENSE_ACTIVE | LICENSE_EXPIRED | LICENSE_SUSPENDED | LICENSE_REVOKED

datatype ComplianceStatus =
  COMPLIANT | NON_COMPLIANT | UNDER_REVIEW | COMPLIANCE_SUSPENDED

record capacity =
  maxConcurrentCases :: int
  currentCaseLoad :: int

record license =
  license_status :: LicenseStatus
  license_expiryDate :: "date option"

record licensing =
  licenses :: "license list"
  complianceStatus :: ComplianceStatus

record monthly_metric =
  month :: date
  casesHandled :: int
  amountRecovered :: rat

record performance =
  monthlyMetrics :: "monthly_metric list"

record contract =
  contract_status :: ContractStatus

record flags =
  isBlacklisted :: bool

text \<open>
  \<open>licensesModified\<close> is Mongoose's change tracking for the path
  \<open>licensing.licenses\<close>, which the second pre-save middleware asks for with
  \<open>isModified\<close>; a save clears it.
\<close>

record dca =
  capacity :: capacity
  licensing :: licensing
  licensesModified :: bool
  performance :: performance
  contract :: contract
  dca_status :: DcaStatus
  flags :: flags

definition capacityValid :: "'a dca_scheme \<Rightarrow> bool" where
  "capacityValid d \<longleftrightarrow>
     1 \<le> maxConcurrentCases (capacity d) \<and> 0 \<le> currentCaseLoad (capacity d)"

definition availableCapacity :: "'a dca_scheme \<Rightarrow> int" where
  "availableCapacity d =
     max 0 (maxConcurrentCases (capacity d) - currentCaseLoad (capacity d))"

definition licenseValid :: "date \<Rightarrow> license \<Rightarrow> bool" where
  "licenseValid now l \<longleftrightarrow>
     license_status l = LICENSE_ACTIVE \<and>
     (case license_expiryDate l of None \<Rightarrow> True | Some e \<Rightarrow> now < e)"

definition hasValidLicenses :: "date \<Rightarrow> 'a dca_scheme \<Rightarrow> bool" where
  "hasValidLicenses now d =
     (if licenses (licensing d) = [] then False
      else list_all (licenseValid now) (licenses (licensing d)))"

definition preSaveCapacity :: "'a dca_scheme \<Rightarrow> 'a dca_scheme" where
  "preSaveCapacity d =
     (if maxConcurrentCases (capacity d) < currentCaseLoad (capacity d)
      then d\<lparr>capacity := (capacity d)\<lparr>currentCaseLoad := maxConcurrentCases (capacity d)\<rparr>\<rparr>
      else d)"

definition preSaveCompliance :: "date \<Rightarrow> 'a dca_scheme \<Rightarrow> 'a dca_scheme" where
  "preSaveCompliance now d =
     (if licensesModified d
      then d\<lparr>licensing := (licensing d)\<lparr>complianceStatus :=
               (if hasValidLicenses now d then COMPLIANT else NON_COMPLIANT)\<rparr>\<rparr>
      else d)"

definition dca_save :: "date \<Rightarrow> 'a dca_scheme \<Rightarrow> 'a dca_scheme" where
  "dca_save now d = (preSaveCompliance now (preSaveCapacity d))\<lparr>licensesModified := False\<rparr>"

definition slice_last :: "nat \<Rightarrow> 'a list \<Rightarrow> 'a list" where
  "slice_last n xs = drop (length xs - n) xs"

definition addMonthlyMetrics ::
  "date \<Rightarrow> monthly_metric \<Rightarrow> 'a dca_scheme \<Rightarrow> 'a dca_scheme" where
  "addMonthlyMetrics now monthlyData d =
     (let pushed = monthlyMetrics (performance d) @ [monthlyData];
          kept = (if 24 < length pushed then slice_last 24 pushed else pushed)
      in dca_save now (d\<lparr>performance := (performance d)\<lparr>monthlyMetrics := kept\<rparr>\<rparr>))"

definition isAvailable :: "'a dca_scheme \<Rightarrow> int \<Rightarrow> bool" where
  "isAvailable d requiredCapacity \<longleftrightarrow>
     dca_status d = DCA_ACTIVE \<and>
     contract_status (contract d) = CONTRACT_ACTIVE \<and>
     \<not> isBlacklisted (flags d) \<and>
     requiredCapacity \<le> availableCapacity d"

definition assignCase :: "date \<Rightarrow> 'a dca_scheme \<Rightarrow> error option \<times> 'a dca_scheme" where
  "assignCase now d =
     (if 0 < availableCapacity d
      then (None, dca_save now
              (d\<lparr>capacity := (capacity d)\<lparr>currentCaseLoad := currentCaseLoad (capacity d) + 1\<rparr>\<rparr>))
      else (Some (Error ''No available capacity''), d))"

definition releaseCase :: "date \<Rightarrow> 'a dca_scheme \<Rightarrow> 'a dca_scheme" where
  "releaseCase now d =
     (if 0 < currentCaseLoad (capacity d)
      then dca_save now
             (d\<lparr>capacity := (capacity d)\<lparr>currentCaseLoad := currentCaseLoad (capacity d) - 1\<rparr>\<rparr>)
      else dca_save now d)"

section \<open>The Case model\<close>

type_synonym objectId = string

datatype CaseStatus =
  NEW | ASSIGNED | IN_PROGRESS | CONTACTED | NEGOTIATING | PAYMENT_PLAN | RESOLVED
  | CLOSED | ESCALATED | LEGAL

datatype PaymentStatus = PENDING | COMPLETED | FAILED | REFUNDED

datatype AgingCategory = FRESH | LOW | MEDIUM | HIGH | CRITICAL

datatype CommunicationType = EMAIL | PHONE | SMS | LETTER | MEETING | SYSTEM

datatype Direction = INBOUND | OUTBOUND

record payment =
  amount :: rat
  paymentDate :: "date option"
  payment_status :: PaymentStatus

record communication =
  comm_type :: "CommunicationType option"
  direction :: "Direction option"
  subject :: string
  content :: string
  createdBy :: "objectId option"

record escalation =
  level :: int
  reason :: string
  escalatedBy :: "objectId option"

record debt =
  originalAmount :: rat
  currentAmount :: rat
  invoiceDate :: "date option"
  dueDate :: "date option"

record dates =
  firstContact :: "date option"
  lastContact :: "date option"
  expectedResolution :: "date option"
  actualResolution :: "date option"
  escalationDate :: "date option"

record aging =
  days :: int
  category :: AgingCategory

text \<open>
  \<open>isNew\<close> is Mongoose's flag of a document that has not been saved yet; a save that
  goes through clears it. An unset \<open>caseNumber\<close> is \<open>None\<close>; the empty string is falsy
  as well. \<open>createdAt\<close> and \<open>updatedAt\<close> are the two paths that \<open>timestamps: true\<close> adds
  to the schema. \<open>otherPathsValid\<close> says whether the paths that the model does not hold
  (customer, priority score, predictions, documents, notes and the like) pass their
  validators; no method and no middleware of the source writes any of them.
\<close>

record case_doc =
  isNew :: bool
  caseNumber :: "string option"
  debt :: debt
  case_status :: CaseStatus
  dates :: dates
  aging :: aging
  communications :: "communication list"
  payments :: "payment list"
  escalations :: "escalation list"
  createdAt :: "date option"
  updatedAt :: "date option"
  otherPathsValid :: bool

text \<open>
  What a save reads from outside the document: the clock (\<open>new Date()\<close>), the calendar
  year of that instant (\<open>getFullYear()\<close>) and the answer of the \<open>countDocuments\<close> query
  for the cases created in that year.
\<close>

record world =
  currentTime :: date
  currentYear :: nat
  casesThisYear :: nat

definition totalPaid :: "'a case_doc_scheme \<Rightarrow> rat" where
  "totalPaid c =
     foldl (\<lambda>total p. total + amount p) 0
       (filter (\<lambda>p. payment_status p = COMPLETED) (payments c))"

definition remainingBalance :: "'a case_doc_scheme \<Rightarrow> rat" where
  "remainingBalance c = max 0 (currentAmount (debt c) - totalPaid c)"

definition recoveryRate :: "'a case_doc_scheme \<Rightarrow> rat" where
  "recoveryRate c =
     (if originalAmount (debt c) = 0 then 0
      else (totalPaid c / originalAmount (debt c)) * 100)"

definition overdueDays :: "date \<Rightarrow> 'a case_doc_scheme \<Rightarrow> int" where
  "overdueDays now c =
     (case dueDate (debt c) of
        None \<Rightarrow> 0
      | Some due \<Rightarrow> if now < due then 0 else (now - due) div (1000 * 60 * 60 * 24))"

text \<open>
  The validators that the schema declares on the paths of the model: \<open>required\<close>,
  \<open>min\<close>, and for a string \<open>required\<close> means not empty. A path whose type has no unset
  value is present.
\<close>

definition paymentValid :: "payment \<Rightarrow> bool" where
  "paymentValid p \<longleftrightarrow> 0 \<le> amount p \<and> paymentDate p \<noteq> None"

definition communicationValid :: "communication \<Rightarrow> bool" where
  "communicationValid m \<longleftrightarrow>
     comm_type m \<noteq> None \<and> direction m \<noteq> None \<and> createdBy m \<noteq> None"

definition escalationValid :: "escalation \<Rightarrow> bool" where
  "escalationValid e \<longleftrightarrow> 1 \<le> level e \<and> reason e \<noteq> [] \<and> escalatedBy e \<noteq> None"

definition caseValid :: "'a case_doc_scheme \<Rightarrow> bool" where
  "caseValid c \<longleftrightarrow>
     caseNumber c \<noteq> None \<and> caseNumber c \<noteq> Some [] \<and>
     0 \<le> originalAmount (debt c) \<and> 0 \<le> currentAmount (debt c) \<and>
     invoiceDate (debt c) \<noteq> None \<and> dueDate (debt c) \<noteq> None \<and>
     0 \<le> days (aging c) \<and>
     list_all communicationValid (communications c) \<and>
     list_all paymentValid (payments c) \<and>
     list_all escalationValid (escalations c) \<and>
     otherPathsValid c"

definition timestampsPreSave :: "date \<Rightarrow> 'a case_doc_scheme \<Rightarrow> 'a case_doc_scheme" where
  "timestampsPreSave now c =
     c\<lparr>createdAt := (if isNew c \<and> createdAt c = None then Some now else createdAt c),
       updatedAt := Some now\<rparr>"

fun string_of_nat :: "nat \<Rightarrow> string" where
  "string_of_nat n =
     (if n < 10 then [''0123456789'' ! n]
      else string_of_nat (n div 10) @ [''0123456789'' ! (n mod 10)])"

declare string_of_nat.simps [simp del]

definition padStart :: "nat \<Rightarrow> char \<Rightarrow> string \<Rightarrow> string" where
  "padStart n c s = replicate (n - length s) c @ s"

definition preSaveCaseNumber :: "world \<Rightarrow> 'a case_doc_scheme \<Rightarrow> 'a case_doc_scheme" where
  "preSaveCaseNumber w c =
     (if isNew c \<and> (caseNumber c = None \<or> caseNumber c = Some [])
      then c\<lparr>caseNumber := Some (''CASE-'' @ string_of_nat (currentYear w) @ ''-'' @
                 padStart 6 (CHR ''0'') (string_of_nat (casesThisYear w + 1)))\<rparr>
      else c)"

definition preSaveAging :: "date \<Rightarrow> 'a case_doc_scheme \<Rightarrow> 'a case_doc_scheme" where
  "preSaveAging now c =
     (if dueDate (debt c) \<noteq> None
      then (let n = overdueDays now c
            in c\<lparr>aging := (aging c)\<lparr>days := n,
                 category := (if n \<le> 0 then FRESH
                              else if n \<le> 30 then LOW
                              else if n \<le> 60 then MEDIUM
                              else if n \<le> 90 then HIGH
                              else CRITICAL)\<rparr>\<rparr>)
      else c)"

definition preSaveCurrentAmount :: "'a case_doc_scheme \<Rightarrow> 'a case_doc_scheme" where
  "preSaveCurrentAmount c =
     (if payments c \<noteq> []
      then c\<lparr>debt := (debt c)\<lparr>currentAmount :=
               max 0 (originalAmount (debt c) - totalPaid c)\<rparr>\<rparr>
      else c)"

text \<open>The document that a save which passed the validators leaves.\<close>

definition savedCase :: "world \<Rightarrow> 'a case_doc_scheme \<Rightarrow> 'a case_doc_scheme" where
  "savedCase w c =
     (preSaveCurrentAmount (preSaveAging (currentTime w)
        (preSaveCaseNumber w (timestampsPreSave (currentTime w) c))))
       \<lparr>isNew := False\<rparr>"

definition case_save ::
  "world \<Rightarrow> 'a case_doc_scheme \<Rightarrow> error option \<times> 'a case_doc_scheme" where
  "case_save w c =
     (if caseValid c then (None, savedCase w c) else (Some ValidationError, c))"

text \<open>
  The invariant of the specification's data model: the current amount is the original
  amount less the COMPLETED payments, floored at 0.
\<close>

definition currentAmountConsistent :: "'a case_doc_scheme \<Rightarrow> bool" where
  "currentAmountConsistent c \<longleftrightarrow>
     currentAmount (debt c) =
       max 0 (originalAmount (debt c) -
         (\<Sum>p\<leftarrow>filter (\<lambda>p. payment_status p = COMPLETED) (payments c). amount p))"

definition addCommunication ::
  "world \<Rightarrow> communication \<Rightarrow> 'a case_doc_scheme \<Rightarrow> error option \<times> 'a case_doc_scheme" where
  "addCommunication w comm c =
     (let c1 = c\<lparr>communications := communications c @ [comm]\<rparr>;
          c2 = c1\<lparr>dates := (dates c1)\<lparr>lastContact := Some (currentTime w)\<rparr>\<rparr>;
          c3 = (if firstContact (dates c2) = None
                then c2\<lparr>dates := (dates c2)\<lparr>firstContact := Some (currentTime w)\<rparr>\<rparr>
                else c2)
      in case_save w c3)"

definition addPayment ::
  "world \<Rightarrow> payment \<Rightarrow> 'a case_doc_scheme \<Rightarrow> error option \<times> 'a case_doc_scheme" where
  "addPayment w p c = case_save w (c\<lparr>payments := payments c @ [p]\<rparr>)"

definition escalate ::
  "world \<Rightarrow> escalation \<Rightarrow> 'a case_doc_scheme \<Rightarrow> error option \<times> 'a case_doc_scheme" where
  "escalate w e c =
     (let c1 = c\<lparr>escalations := escalations c @ [e]\<rparr>;
          c2 = c1\<lparr>case_status := ESCALATED\<rparr>;
          c3 = c2\<lparr>dates := (dates c2)\<lparr>escalationDate := Some (currentTime w)\<rparr>\<rparr>
      in case_save w c3)"

section \<open>Documents to run the operations on\<close>

text \<open>An agency with room for two more cases, used to run the operations.\<close>

definition agency :: dca where
  "agency = \<lparr> capacity = \<lparr> maxConcurrentCases = 5, currentCaseLoad = 3 \<rparr>,
              licensing = \<lparr> licenses = [], complianceStatus = UNDER_REVIEW \<rparr>,
              licensesModified = False,
              performance = \<lparr> monthlyMetrics = [] \<rparr>,
              contract = \<lparr> contract_status = CONTRACT_ACTIVE \<rparr>,
              dca_status = DCA_ACTIVE,
              flags = \<lparr> isBlacklisted = False \<rparr> \<rparr>"

text \<open>An agency loaded beyond its maximum, as after the maximum has been lowered.\<close>

definition overfull :: dca where
  "overfull = agency\<lparr>capacity := \<lparr> maxConcurrentCases = 3, currentCaseLoad = 5 \<rparr>\<rparr>"

definition metricOf :: "date \<Rightarrow> monthly_metric" where
  "metricOf m = \<lparr> month = m, casesHandled = 10, amountRecovered = 2500 \<rparr>"

text \<open>An agency whose history already holds 24 months.\<close>

definition veteran :: dca where
  "veteran = agency\<lparr>performance := \<lparr> monthlyMetrics = replicate 24 (metricOf 7) \<rparr>\<rparr>"

text \<open>A clock that reads the given millisecond, in a year with 41 cases so far.\<close>

definition clockAt :: "date \<Rightarrow> world" where
  "clockAt ms = \<lparr> currentTime = ms, currentYear = 2023, casesThisYear = 41 \<rparr>"

text \<open>
  A stored case of 1000 that fell due at millisecond 1700000000000 (14 November 2023),
  entered with a current amount of 800, with no payment and nothing recorded yet, its
  aging still at 0 days.
\<close>

definition openCase :: case_doc where
  "openCase = \<lparr> isNew = False, caseNumber = Some ''CASE-2023-000007'',
                debt = \<lparr> originalAmount = 1000, currentAmount = 800,
                         invoiceDate = Some 1697000000000, dueDate = Some 1700000000000 \<rparr>,
                case_status = ASSIGNED,
                dates = \<lparr> firstContact = None, lastContact = None, expectedResolution = None,
                          actualResolution = None, escalationDate = None \<rparr>,
                aging = \<lparr> days = 0, category = FRESH \<rparr>,
                communications = [], payments = [], escalations = [],
                createdAt = Some 1697000000000, updatedAt = Some 1697000000000,
                otherPathsValid = True \<rparr>"

definition closedCase :: case_doc where
  "closedCase = openCase\<lparr>case_status := CLOSED\<rparr>"

definition paid400 :: payment where
  "paid400 = \<lparr> amount = 400, paymentDate = Some 1700500000000, payment_status = COMPLETED \<rparr>"

definition phoneCall :: communication where
  "phoneCall = \<lparr> comm_type = Some PHONE, direction = Some OUTBOUND, subject = ''call'',
                 content = ''left a message'', createdBy = Some ''agent-17'' \<rparr>"

definition slaBreach :: escalation where
  "slaBreach = \<lparr> level = 1, reason = ''SLA_BREACH'', escalatedBy = Some ''agent-17'' \<rparr>"

section \<open>The capacity ledger\<close>

lemma capacity_dca_save:
  "capacity (dca_save now d) = capacity (preSaveCapacity d)"
  by (simp add: dca_save_def preSaveCompliance_def)

lemma load_dca_save:
  "currentCaseLoad (capacity (dca_save now d)) =
     min (currentCaseLoad (capacity d)) (maxConcurrentCases (capacity d))"
  by (simp add: capacity_dca_save preSaveCapacity_def)

lemma max_dca_save:
  "maxConcurrentCases (capacity (dca_save now d)) = maxConcurrentCases (capacity d)"
  by (simp add: capacity_dca_save preSaveCapacity_def)

text \<open>
  Claim C3. \<open>assignCase\<close> throws (the error the specification calls CapacityExceeded;
  the source throws \<open>Error('No available capacity')\<close>) exactly when the available
  capacity is below 1, and then leaves the document as it was. Otherwise it raises the
  case load by one, and a load between 0 and the maximum stays between 0 and the maximum.
\<close>

theorem C3_assignCase:
  "(fst (assignCase now d) \<noteq> None \<longleftrightarrow> availableCapacity d < 1) \<and>
   (availableCapacity d < 1 \<longrightarrow>
      assignCase now d = (Some (Error ''No available capacity''), d)) \<and>
   (\<not> availableCapacity d < 1 \<longrightarrow>
      fst (assignCase now d) = None \<and>
      currentCaseLoad (capacity (snd (assignCase now d))) = currentCaseLoad (capacity d) + 1 \<and>
      maxConcurrentCases (capacity (snd (assignCase now d))) = maxConcurrentCases (capacity d) \<and>
      (0 \<le> currentCaseLoad (capacity d) \<longrightarrow>
         0 \<le> currentCaseLoad (capacity (snd (assignCase now d))) \<and>
         currentCaseLoad (capacity (snd (assignCase now d)))
           \<le> maxConcurrentCases (capacity (snd (assignCase now d)))))"
proof -
  have avail: "0 < availableCapacity d \<longleftrightarrow>
      currentCaseLoad (capacity d) < maxConcurrentCases (capacity d)"
    unfolding availableCapacity_def by arith
  have below: "availableCapacity d < 1 \<longleftrightarrow> \<not> 0 < availableCapacity d"
    by arith
  show ?thesis
    unfolding below by (simp add: assignCase_def load_dca_save max_dca_save avail)
qed

theorem C3_assignCase_witness:
  "\<not> availableCapacity agency < 1 \<and>
   assignCase 0 agency =
     (None, agency\<lparr>capacity := \<lparr> maxConcurrentCases = 5, currentCaseLoad = 4 \<rparr>\<rparr>) \<and>
   availableCapacity (agency\<lparr>capacity := \<lparr> maxConcurrentCases = 5, currentCaseLoad = 5 \<rparr>\<rparr>) < 1 \<and>
   assignCase 0 (agency\<lparr>capacity := \<lparr> maxConcurrentCases = 5, currentCaseLoad = 5 \<rparr>\<rparr>) =
     (Some (Error ''No available capacity''),
      agency\<lparr>capacity := \<lparr> maxConcurrentCases = 5, currentCaseLoad = 5 \<rparr>\<rparr>)"
  using C3_assignCase [of 0 agency]
    C3_assignCase [of 0 "agency\<lparr>capacity := \<lparr> maxConcurrentCases = 5, currentCaseLoad = 5 \<rparr>\<rparr>"]
  by (simp add: agency_def availableCapacity_def assignCase_def dca_save_def
      preSaveCapacity_def preSaveCompliance_def)

text \<open>
  Claim C4. On an agency that passes the schema's capacity validators and has at least
  one free slot, \<open>assignCase\<close> followed by \<open>releaseCase\<close> gives back the case load and
  the available capacity it started from. \<open>releaseCase\<close> at load 0 leaves the load at 0,
  and the load it leaves is never negative.
\<close>

theorem C4_assign_release:
  "(capacityValid d \<and> 1 \<le> availableCapacity d \<longrightarrow>
      fst (assignCase t1 d) = None \<and>
      currentCaseLoad (capacity (releaseCase t2 (snd (assignCase t1 d))))
        = currentCaseLoad (capacity d) \<and>
      availableCapacity (releaseCase t2 (snd (assignCase t1 d))) = availableCapacity d) \<and>
   (capacityValid d \<and> currentCaseLoad (capacity d) = 0 \<longrightarrow>
      currentCaseLoad (capacity (releaseCase t2 d)) = 0) \<and>
   (capacityValid d \<longrightarrow> 0 \<le> currentCaseLoad (capacity (releaseCase t2 d)))"
proof (intro conjI impI)
  assume h: "capacityValid d \<and> 1 \<le> availableCapacity d"
  then have room: "currentCaseLoad (capacity d) + 1 \<le> maxConcurrentCases (capacity d)"
    and pos: "0 \<le> currentCaseLoad (capacity d)" and avail: "0 < availableCapacity d"
    unfolding availableCapacity_def capacityValid_def by arith+
  define d' where "d' = snd (assignCase t1 d)"
  have load': "currentCaseLoad (capacity d') = currentCaseLoad (capacity d) + 1"
    and max': "maxConcurrentCases (capacity d') = maxConcurrentCases (capacity d)"
    using room avail by (simp_all add: d'_def assignCase_def load_dca_save max_dca_save)
  show "fst (assignCase t1 d) = None"
    using avail by (simp add: assignCase_def)
  show restored: "currentCaseLoad (capacity (releaseCase t2 d')) = currentCaseLoad (capacity d)"
    using pos room by (simp add: releaseCase_def load_dca_save load' max')
  have "maxConcurrentCases (capacity (releaseCase t2 d')) = maxConcurrentCases (capacity d)"
    by (simp add: releaseCase_def max_dca_save max')
  with restored show "availableCapacity (releaseCase t2 d') = availableCapacity d"
    by (simp add: availableCapacity_def)
next
  assume "capacityValid d \<and> currentCaseLoad (capacity d) = 0"
  then show "currentCaseLoad (capacity (releaseCase t2 d)) = 0"
    by (simp add: releaseCase_def load_dca_save capacityValid_def)
next
  assume "capacityValid d"
  then show "0 \<le> currentCaseLoad (capacity (releaseCase t2 d))"
    by (simp add: releaseCase_def load_dca_save capacityValid_def)
qed

theorem C4_assign_release_witness:
  "capacityValid agency \<and> 1 \<le> availableCapacity agency \<and>
   currentCaseLoad (capacity (snd (assignCase 10 agency))) = 4 \<and>
   currentCaseLoad (capacity (releaseCase 20 (snd (assignCase 10 agency)))) = 3 \<and>
   availableCapacity (releaseCase 20 (snd (assignCase 10 agency))) = 2 \<and>
   capacityValid (agency\<lparr>capacity := \<lparr> maxConcurrentCases = 5, currentCaseLoad = 0 \<rparr>\<rparr>) \<and>
   currentCaseLoad (capacity (releaseCase 20
     (agency\<lparr>capacity := \<lparr> maxConcurrentCases = 5, currentCaseLoad = 0 \<rparr>\<rparr>))) = 0"
  using C4_assign_release [of agency 10 20]
    C4_assign_release [of "agency\<lparr>capacity := \<lparr> maxConcurrentCases = 5, currentCaseLoad = 0 \<rparr>\<rparr>" 10 20]
  by (simp add: agency_def capacityValid_def availableCapacity_def assignCase_def
      releaseCase_def dca_save_def preSaveCapacity_def preSaveCompliance_def)

section \<open>Availability\<close>

text \<open>
  Claim C5, as the specification words it: the available capacity is the maximum minus
  the load. It fails on an agency whose load is above its maximum, where the source's
  \<open>Math.max(0, ...)\<close> answers 0 and the difference is negative.
\<close>

theorem C5_availableCapacity_counterexample:
  "availableCapacity overfull = 0 \<and>
   maxConcurrentCases (capacity overfull) - currentCaseLoad (capacity overfull) = - 2 \<and>
   availableCapacity overfull
     \<noteq> maxConcurrentCases (capacity overfull) - currentCaseLoad (capacity overfull)"
  by (simp add: overfull_def agency_def availableCapacity_def)

text \<open>
  Claim C5, amended. \<open>isAvailable n\<close> holds exactly when the agency is ACTIVE, its
  contract is ACTIVE, it is not blacklisted and its available capacity is at least \<open>n\<close>,
  where the available capacity is the maximum minus the load, floored at 0: it is never
  negative, and it is the plain difference whenever the load does not exceed the
  maximum, which is the case after every save. For \<open>n\<close> from 1 on, the floor makes no
  difference to the answer of \<open>isAvailable\<close>.
\<close>

theorem C5_isAvailable:
  "(isAvailable d n \<longleftrightarrow>
      dca_status d = DCA_ACTIVE \<and> contract_status (contract d) = CONTRACT_ACTIVE \<and>
      \<not> isBlacklisted (flags d) \<and> n \<le> availableCapacity d) \<and>
   (1 \<le> n \<longrightarrow>
      (isAvailable d n \<longleftrightarrow>
         dca_status d = DCA_ACTIVE \<and> contract_status (contract d) = CONTRACT_ACTIVE \<and>
         \<not> isBlacklisted (flags d) \<and>
         n \<le> maxConcurrentCases (capacity d) - currentCaseLoad (capacity d))) \<and>
   availableCapacity d
     = max 0 (maxConcurrentCases (capacity d) - currentCaseLoad (capacity d)) \<and>
   0 \<le> availableCapacity d \<and>
   (currentCaseLoad (capacity d) \<le> maxConcurrentCases (capacity d) \<longrightarrow>
      availableCapacity d = maxConcurrentCases (capacity d) - currentCaseLoad (capacity d)) \<and>
   currentCaseLoad (capacity (dca_save now d)) \<le> maxConcurrentCases (capacity (dca_save now d))"
proof -
  have floored: "1 \<le> n \<longrightarrow>
      (n \<le> availableCapacity d \<longleftrightarrow>
       n \<le> maxConcurrentCases (capacity d) - currentCaseLoad (capacity d))"
    unfolding availableCapacity_def by arith
  have "1 \<le> n \<longrightarrow>
      (isAvailable d n \<longleftrightarrow>
         dca_status d = DCA_ACTIVE \<and> contract_status (contract d) = CONTRACT_ACTIVE \<and>
         \<not> isBlacklisted (flags d) \<and>
         n \<le> maxConcurrentCases (capacity d) - currentCaseLoad (capacity d))"
    using floored unfolding isAvailable_def by blast
  then show ?thesis
    by (simp add: isAvailable_def availableCapacity_def load_dca_save max_dca_save)
qed

theorem C5_isAvailable_witness:
  "currentCaseLoad (capacity agency) \<le> maxConcurrentCases (capacity agency) \<and>
   availableCapacity agency = 2 \<and> isAvailable agency 1 \<and> isAvailable agency 2 \<and>
   \<not> isAvailable agency 3"
  using C5_isAvailable [of agency 1 0] C5_isAvailable [of agency 2 0]
    C5_isAvailable [of agency 3 0]
  by (simp add: agency_def)

section \<open>Monthly metrics\<close>

lemma performance_dca_save:
  "performance (dca_save now d) = performance d"
  by (simp add: dca_save_def preSaveCompliance_def preSaveCapacity_def)

lemma monthlyMetrics_addMonthlyMetrics:
  "monthlyMetrics (performance (addMonthlyMetrics now m d)) =
     drop (length (monthlyMetrics (performance d)) + 1 - 24)
       (monthlyMetrics (performance d) @ [m])"
  by (simp add: addMonthlyMetrics_def Let_def performance_dca_save slice_last_def)

text \<open>
  Claim C8. \<open>addMonthlyMetrics\<close> puts the new entry last. What it leaves is the
  pushed sequence without its oldest entries: a suffix of it (so the order of the
  entries that stay is kept), of length at most 24, and of length exactly 24 once 24
  entries were there before; below 24 entries nothing is dropped.
\<close>

theorem C8_addMonthlyMetrics:
  "last (monthlyMetrics (performance (addMonthlyMetrics now m d))) = m \<and>
   suffix (monthlyMetrics (performance (addMonthlyMetrics now m d)))
     (monthlyMetrics (performance d) @ [m]) \<and>
   length (monthlyMetrics (performance (addMonthlyMetrics now m d)))
     = min 24 (length (monthlyMetrics (performance d)) + 1) \<and>
   length (monthlyMetrics (performance (addMonthlyMetrics now m d))) \<le> 24 \<and>
   (length (monthlyMetrics (performance d)) < 24 \<longrightarrow>
      monthlyMetrics (performance (addMonthlyMetrics now m d))
        = monthlyMetrics (performance d) @ [m]) \<and>
   (24 \<le> length (monthlyMetrics (performance d)) \<longrightarrow>
      monthlyMetrics (performance (addMonthlyMetrics now m d))
        = drop (length (monthlyMetrics (performance d)) - 23) (monthlyMetrics (performance d))
          @ [m])"
proof -
  let ?xs = "monthlyMetrics (performance d)"
  let ?ys = "monthlyMetrics (performance (addMonthlyMetrics now m d))"
  have ys: "?ys = drop (length ?xs + 1 - 24) (?xs @ [m])"
    by (rule monthlyMetrics_addMonthlyMetrics)
  have "last ?ys = m"
    unfolding ys by simp
  moreover have "suffix ?ys (?xs @ [m])"
    unfolding ys by (rule suffix_drop)
  moreover have "length ?ys = min 24 (length ?xs + 1)"
    unfolding ys by simp
  moreover have "length ?xs < 24 \<longrightarrow> ?ys = ?xs @ [m]"
    unfolding ys by simp
  moreover have "24 \<le> length ?xs \<longrightarrow> ?ys = drop (length ?xs - 23) ?xs @ [m]"
    unfolding ys by simp
  ultimately show ?thesis
    by simp
qed

theorem C8_addMonthlyMetrics_witness:
  "24 \<le> length (monthlyMetrics (performance veteran)) \<and>
   monthlyMetrics (performance (addMonthlyMetrics 0 (metricOf 8) veteran))
     = replicate 23 (metricOf 7) @ [metricOf 8] \<and>
   length (monthlyMetrics (performance agency)) < 24 \<and>
   monthlyMetrics (performance (addMonthlyMetrics 0 (metricOf 8) agency)) = [metricOf 8]"
  using C8_addMonthlyMetrics [of 0 "metricOf 8" veteran]
    C8_addMonthlyMetrics [of 0 "metricOf 8" agency]
  by (simp add: veteran_def agency_def)

section \<open>Saving a case\<close>

text \<open>What a save does to each part of a case, rejected or not.\<close>

lemma foldl_amount: "foldl (\<lambda>total p. total + amount p) a ps = a + sum_list (map amount ps)"
  by (induction ps arbitrary: a) simp_all

lemma totalPaid_sum:
  "totalPaid c = (\<Sum>p\<leftarrow>filter (\<lambda>p. payment_status p = COMPLETED) (payments c). amount p)"
  by (simp add: totalPaid_def foldl_amount)

lemma timestampsPreSave_same:
  "payments (timestampsPreSave now c) = payments c"
  "communications (timestampsPreSave now c) = communications c"
  "escalations (timestampsPreSave now c) = escalations c"
  "case_status (timestampsPreSave now c) = case_status c"
  "dates (timestampsPreSave now c) = dates c"
  "debt (timestampsPreSave now c) = debt c"
  "aging (timestampsPreSave now c) = aging c"
  "caseNumber (timestampsPreSave now c) = caseNumber c"
  "isNew (timestampsPreSave now c) = isNew c"
  "otherPathsValid (timestampsPreSave now c) = otherPathsValid c"
  "case_doc.more (timestampsPreSave now c) = case_doc.more c"
  "updatedAt (timestampsPreSave now c) = Some now"
  "createdAt (timestampsPreSave now c) =
     (if isNew c \<and> createdAt c = None then Some now else createdAt c)"
  by (simp_all add: timestampsPreSave_def)

lemma preSaveCaseNumber_same:
  "payments (preSaveCaseNumber w c) = payments c"
  "communications (preSaveCaseNumber w c) = communications c"
  "escalations (preSaveCaseNumber w c) = escalations c"
  "case_status (preSaveCaseNumber w c) = case_status c"
  "dates (preSaveCaseNumber w c) = dates c"
  "debt (preSaveCaseNumber w c) = debt c"
  "aging (preSaveCaseNumber w c) = aging c"
  "otherPathsValid (preSaveCaseNumber w c) = otherPathsValid c"
  "case_doc.more (preSaveCaseNumber w c) = case_doc.more c"
  "updatedAt (preSaveCaseNumber w c) = updatedAt c"
  "createdAt (preSaveCaseNumber w c) = createdAt c"
  by (simp_all add: preSaveCaseNumber_def)

lemma preSaveAging_same:
  "payments (preSaveAging now c) = payments c"
  "communications (preSaveAging now c) = communications c"
  "escalations (preSaveAging now c) = escalations c"
  "case_status (preSaveAging now c) = case_status c"
  "dates (preSaveAging now c) = dates c"
  "debt (preSaveAging now c) = debt c"
  "caseNumber (preSaveAging now c) = caseNumber c"
  "otherPathsValid (preSaveAging now c) = otherPathsValid c"
  "case_doc.more (preSaveAging now c) = case_doc.more c"
  "updatedAt (preSaveAging now c) = updatedAt c"
  "createdAt (preSaveAging now c) = createdAt c"
  by (simp_all add: preSaveAging_def Let_def)

lemma preSaveCurrentAmount_same:
  "payments (preSaveCurrentAmount c) = payments c"
  "communications (preSaveCurrentAmount c) = communications c"
  "escalations (preSaveCurrentAmount c) = escalations c"
  "case_status (preSaveCurrentAmount c) = case_status c"
  "dates (preSaveCurrentAmount c) = dates c"
  "aging (preSaveCurrentAmount c) = aging c"
  "caseNumber (preSaveCurrentAmount c) = caseNumber c"
  "otherPathsValid (preSaveCurrentAmount c) = otherPathsValid c"
  "case_doc.more (preSaveCurrentAmount c) = case_doc.more c"
  "updatedAt (preSaveCurrentAmount c) = updatedAt c"
  "createdAt (preSaveCurrentAmount c) = createdAt c"
  by (simp_all add: preSaveCurrentAmount_def)

lemmas hooks_same =
  timestampsPreSave_same preSaveCaseNumber_same preSaveAging_same preSaveCurrentAmount_same

lemma payments_savedCase: "payments (savedCase w c) = payments c"
  by (simp add: savedCase_def hooks_same)

lemma totalPaid_savedCase: "totalPaid (savedCase w c) = totalPaid c"
  by (simp add: totalPaid_def payments_savedCase)

lemma debt_savedCase:
  "debt (savedCase w c) =
     (if payments c \<noteq> []
      then (debt c)\<lparr>currentAmount := max 0 (originalAmount (debt c) - totalPaid c)\<rparr>
      else debt c)"
proof -
  let ?c = "preSaveAging (currentTime w) (preSaveCaseNumber w (timestampsPreSave (currentTime w) c))"
  have "payments ?c = payments c" and "debt ?c = debt c"
    by (simp_all add: hooks_same)
  then have "debt (preSaveCurrentAmount ?c) =
     (if payments c \<noteq> []
      then (debt c)\<lparr>currentAmount := max 0 (originalAmount (debt c) - totalPaid c)\<rparr>
      else debt c)"
    by (simp add: preSaveCurrentAmount_def totalPaid_def)
  then show ?thesis
    by (simp add: savedCase_def)
qed

lemma aging_preSaveAging_cong:
  "debt a = debt b \<Longrightarrow> aging a = aging b \<Longrightarrow>
   aging (preSaveAging now a) = aging (preSaveAging now b)"
  by (simp add: preSaveAging_def overdueDays_def Let_def)

lemma aging_savedCase:
  "aging (savedCase w c) = aging (preSaveAging (currentTime w) c)"
proof -
  have "aging (preSaveAging (currentTime w)
                (preSaveCaseNumber w (timestampsPreSave (currentTime w) c)))
      = aging (preSaveAging (currentTime w) c)"
    by (rule aging_preSaveAging_cong) (simp_all add: hooks_same)
  then show ?thesis
    by (simp add: savedCase_def hooks_same)
qed

lemma dates_savedCase: "dates (savedCase w c) = dates c"
  by (simp add: savedCase_def hooks_same)

lemma status_savedCase: "case_status (savedCase w c) = case_status c"
  by (simp add: savedCase_def hooks_same)

lemma communications_savedCase: "communications (savedCase w c) = communications c"
  by (simp add: savedCase_def hooks_same)

lemma escalations_savedCase: "escalations (savedCase w c) = escalations c"
  by (simp add: savedCase_def hooks_same)

lemma otherPathsValid_savedCase: "otherPathsValid (savedCase w c) = otherPathsValid c"
  by (simp add: savedCase_def hooks_same)

lemma more_savedCase: "case_doc.more (savedCase w c) = case_doc.more c"
  by (simp add: savedCase_def hooks_same)




lemma caseNumber_savedCase:
  "caseValid c \<Longrightarrow> caseNumber (savedCase w c) = caseNumber c"
proof -
  assume "caseValid c"
  then have "caseNumber c \<noteq> None" and "caseNumber c \<noteq> Some []"
    by (simp_all add: caseValid_def)
  then have "caseNumber (preSaveCaseNumber w (timestampsPreSave (currentTime w) c))
      = caseNumber c"
    by (simp add: preSaveCaseNumber_def hooks_same)
  then show ?thesis
    by (simp add: savedCase_def hooks_same)
qed

lemma fst_case_save: "fst (case_save w c) = None \<longleftrightarrow> caseValid c"
  by (simp add: case_save_def)

lemma fst_case_save_cases:
  "fst (case_save w c) = None \<or> fst (case_save w c) = Some ValidationError"
  by (simp add: case_save_def)

lemma snd_case_save:
  "snd (case_save w c) = (if caseValid c then savedCase w c else c)"
  by (simp add: case_save_def)

lemma snd_case_save_same:
  "payments (snd (case_save w c)) = payments c \<and>
   communications (snd (case_save w c)) = communications c \<and>
   escalations (snd (case_save w c)) = escalations c \<and>
   case_status (snd (case_save w c)) = case_status c \<and>
   dates (snd (case_save w c)) = dates c \<and>
   caseNumber (snd (case_save w c)) = caseNumber c \<and>
   otherPathsValid (snd (case_save w c)) = otherPathsValid c \<and>
   case_doc.more (snd (case_save w c)) = case_doc.more c \<and>
   totalPaid (snd (case_save w c)) = totalPaid c"
  by (simp add: snd_case_save payments_savedCase communications_savedCase
      escalations_savedCase status_savedCase dates_savedCase caseNumber_savedCase
      otherPathsValid_savedCase more_savedCase totalPaid_savedCase)

lemma debt_case_save:
  "debt (snd (case_save w c)) =
     (if caseValid c \<and> payments c \<noteq> []
      then (debt c)\<lparr>currentAmount := max 0 (originalAmount (debt c) - totalPaid c)\<rparr>
      else debt c)"
  by (simp add: snd_case_save debt_savedCase)

lemma caseValid_append:
  "caseValid (c\<lparr>payments := payments c @ [p]\<rparr>) \<longleftrightarrow> caseValid c \<and> paymentValid p"
  "caseValid (c\<lparr>communications := communications c @ [m]\<rparr>) \<longleftrightarrow>
     caseValid c \<and> communicationValid m"
  "caseValid (c\<lparr>escalations := escalations c @ [e]\<rparr>) \<longleftrightarrow> caseValid c \<and> escalationValid e"
  by (auto simp: caseValid_def)

lemma caseValid_frame:
  "caseValid (c\<lparr>dates := ds\<rparr>) \<longleftrightarrow> caseValid c"
  "caseValid (c\<lparr>case_status := s\<rparr>) \<longleftrightarrow> caseValid c"
  by (simp_all add: caseValid_def)

lemma escalate_save:
  "escalate w e c =
     case_save w (c\<lparr>escalations := escalations c @ [e], case_status := ESCALATED,
       dates := (dates c)\<lparr>escalationDate := Some (currentTime w)\<rparr>\<rparr>)"
  by (simp add: escalate_def Let_def)

lemma addCommunication_save:
  "addCommunication w m c =
     case_save w (c\<lparr>communications := communications c @ [m],
       dates := (dates c)\<lparr>lastContact := Some (currentTime w),
         firstContact := (case firstContact (dates c) of
                            None \<Rightarrow> Some (currentTime w) | Some t \<Rightarrow> Some t)\<rparr>\<rparr>)"
proof (cases "firstContact (dates c)")
  case None
  then show ?thesis
    by (simp add: addCommunication_def Let_def)
next
  case (Some t)
  have "(dates c)\<lparr>firstContact := firstContact (dates c)\<rparr> = dates c"
    by simp
  then have kept: "(dates c)\<lparr>firstContact := Some t\<rparr> = dates c"
    by (simp only: Some)
  have "(dates c)\<lparr>lastContact := Some (currentTime w), firstContact := Some t\<rparr>
      = (dates c)\<lparr>firstContact := Some t\<rparr>\<lparr>lastContact := Some (currentTime w)\<rparr>"
    by simp
  then have same: "(dates c)\<lparr>lastContact := Some (currentTime w), firstContact := Some t\<rparr>
      = (dates c)\<lparr>lastContact := Some (currentTime w)\<rparr>"
    by (simp only: kept)
  have "addCommunication w m c =
      case_save w (c\<lparr>communications := communications c @ [m],
        dates := (dates c)\<lparr>lastContact := Some (currentTime w)\<rparr>\<rparr>)"
    using Some by (simp add: addCommunication_def Let_def)
  then show ?thesis
    unfolding Some option.simps same .
qed

lemma currentAmountConsistent_case_save:
  "caseValid c \<Longrightarrow> payments c \<noteq> [] \<Longrightarrow> currentAmountConsistent (snd (case_save w c))"
  by (simp add: currentAmountConsistent_def debt_case_save snd_case_save_same totalPaid_sum)


section \<open>The current amount\<close>

text \<open>
  Claim C1, as the specification words it: after any save the current amount is the
  original amount less the COMPLETED payments, floored at 0. The middleware recomputes
  the current amount only when the case has a payment, so a case entered with a current
  amount of 800 on an original amount of 1000, and no payment, goes through its save
  and keeps its 800.
\<close>

theorem C1_save_counterexample:
  "fst (case_save (clockAt 1700086400000) openCase) = None \<and>
   payments (snd (case_save (clockAt 1700086400000) openCase)) = [] \<and>
   currentAmount (debt (snd (case_save (clockAt 1700086400000) openCase))) = 800 \<and>
   max 0 (originalAmount (debt (snd (case_save (clockAt 1700086400000) openCase)))
            - totalPaid (snd (case_save (clockAt 1700086400000) openCase))) = 1000 \<and>
   \<not> currentAmountConsistent (snd (case_save (clockAt 1700086400000) openCase))"
  by (simp add: currentAmountConsistent_def debt_case_save snd_case_save_same
      fst_case_save caseValid_def totalPaid_def openCase_def)



text \<open>
  Claim C1, amended. After any save that goes through of a case with at least one
  payment, the current amount is the original amount less the COMPLETED payments,
  floored at 0: so after every \<open>addPayment\<close> that goes through, and after
  \<open>addCommunication\<close> and \<open>escalate\<close> on a case with a payment. A save goes through
  exactly when the document passes the validators of the schema. The save of a case
  without payments leaves the current amount as it is.
\<close>

theorem C1_currentAmount:
  "(caseValid c \<and> payments c \<noteq> [] \<longrightarrow>
      fst (case_save w c) = None \<and> currentAmountConsistent (snd (case_save w c))) \<and>
   (caseValid c \<and> paymentValid p \<longrightarrow> fst (addPayment w p c) = None) \<and>
   (fst (addPayment w p c) = None \<longrightarrow> currentAmountConsistent (snd (addPayment w p c))) \<and>
   (payments c \<noteq> [] \<and> fst (addCommunication w m c) = None \<longrightarrow>
      currentAmountConsistent (snd (addCommunication w m c))) \<and>
   (payments c \<noteq> [] \<and> fst (escalate w e c) = None \<longrightarrow>
      currentAmountConsistent (snd (escalate w e c))) \<and>
   (payments c = [] \<longrightarrow>
      currentAmount (debt (snd (case_save w c))) = currentAmount (debt c))"
proof (intro conjI impI)
  assume "caseValid c \<and> payments c \<noteq> []"
  then show "fst (case_save w c) = None" and "currentAmountConsistent (snd (case_save w c))"
    by (simp_all add: fst_case_save currentAmountConsistent_case_save)
next
  assume "caseValid c \<and> paymentValid p"
  then show "fst (addPayment w p c) = None"
    by (simp add: addPayment_def fst_case_save caseValid_append)
next
  assume "fst (addPayment w p c) = None"
  then have "caseValid (c\<lparr>payments := payments c @ [p]\<rparr>)"
    by (simp add: addPayment_def fst_case_save)
  then show "currentAmountConsistent (snd (addPayment w p c))"
    unfolding addPayment_def by (rule currentAmountConsistent_case_save) simp
next
  assume h: "payments c \<noteq> [] \<and> fst (addCommunication w m c) = None"
  then show "currentAmountConsistent (snd (addCommunication w m c))"
    unfolding addCommunication_save fst_case_save
    by (intro currentAmountConsistent_case_save) simp_all
next
  assume h: "payments c \<noteq> [] \<and> fst (escalate w e c) = None"
  then show "currentAmountConsistent (snd (escalate w e c))"
    unfolding escalate_save fst_case_save
    by (intro currentAmountConsistent_case_save) simp_all
next
  assume "payments c = []"
  then show "currentAmount (debt (snd (case_save w c))) = currentAmount (debt c)"
    by (simp add: debt_case_save)
qed



theorem C1_currentAmount_witness:
  "caseValid (openCase\<lparr>payments := [paid400]\<rparr>) \<and>
   payments (openCase\<lparr>payments := [paid400]\<rparr>) \<noteq> [] \<and>
   fst (case_save (clockAt 1700086400000) (openCase\<lparr>payments := [paid400]\<rparr>)) = None \<and>
   currentAmount (debt (snd (case_save (clockAt 1700086400000)
     (openCase\<lparr>payments := [paid400]\<rparr>)))) = 600 \<and>
   caseValid openCase \<and> paymentValid paid400 \<and>
   fst (addPayment (clockAt 1700086400000) paid400 openCase) = None \<and>
   currentAmount (debt (snd (addPayment (clockAt 1700086400000) paid400 openCase))) = 600 \<and>
   payments openCase = [] \<and>
   currentAmount (debt (snd (case_save (clockAt 1700086400000) openCase))) = 800"
  using C1_currentAmount [where c = "openCase\<lparr>payments := [paid400]\<rparr>" and p = paid400
      and w = "clockAt 1700086400000" and m = phoneCall and e = slaBreach]
    C1_currentAmount [where c = openCase and p = paid400 and w = "clockAt 1700086400000"
      and m = phoneCall and e = slaBreach]
  by (simp add: currentAmountConsistent_def snd_case_save_same debt_case_save
      addPayment_def caseValid_def paymentValid_def openCase_def paid400_def)




section \<open>Escalation\<close>

text \<open>
  Claim C2, as the specification words it: a transition out of CLOSED fails with
  InvalidTransition and leaves the case as it was. The \<open>escalate\<close> method of the Case
  model looks at no status: on a CLOSED case, with an escalation record that passes the
  validators, the call goes through and leaves the case ESCALATED, with the escalation
  on record.
\<close>

theorem C2_escalate_closed_counterexample:
  "case_status closedCase = CLOSED \<and>
   fst (escalate (clockAt 1707862400000) slaBreach closedCase) = None \<and>
   case_status (snd (escalate (clockAt 1707862400000) slaBreach closedCase)) = ESCALATED \<and>
   escalations (snd (escalate (clockAt 1707862400000) slaBreach closedCase)) = [slaBreach] \<and>
   snd (escalate (clockAt 1707862400000) slaBreach closedCase) \<noteq> closedCase"
proof -
  let ?r = "escalate (clockAt 1707862400000) slaBreach closedCase"
  have was: "case_status closedCase = CLOSED"
    by (simp add: closedCase_def)
  have through: "fst ?r = None"
    by (simp add: escalate_save fst_case_save caseValid_def escalationValid_def
        closedCase_def openCase_def slaBreach_def)
  have becomes: "case_status (snd ?r) = ESCALATED"
    by (simp add: escalate_save snd_case_save_same)
  have recorded: "escalations (snd ?r) = [slaBreach]"
    by (simp add: escalate_save snd_case_save_same closedCase_def openCase_def)
  have "snd ?r \<noteq> closedCase"
  proof
    assume "snd ?r = closedCase"
    then have "case_status (snd ?r) = case_status closedCase"
      by simp
    with was becomes show False
      by simp
  qed
  with was through becomes recorded show ?thesis
    by simp
qed

text \<open>
  Claim C2, amended. The \<open>escalate\<close> method of the Case model checks no status. On
  every case, a CLOSED one included, it appends the escalation record, sets the status
  to ESCALATED and sets \<open>dates.escalationDate\<close> to the current time on the document,
  and then saves it. The call fails only when that save is rejected, with the validation
  error of the save and no other; it is rejected exactly when the case or the escalation
  record does not pass the validators of the schema, whatever status the case had; and
  the document in memory carries the new status, the record and the date even then.
\<close>

theorem C2_escalate:
  "case_status (snd (escalate w e c)) = ESCALATED \<and>
   escalations (snd (escalate w e c)) = escalations c @ [e] \<and>
   escalationDate (dates (snd (escalate w e c))) = Some (currentTime w) \<and>
   (fst (escalate w e c) = None \<or> fst (escalate w e c) = Some ValidationError) \<and>
   (fst (escalate w e c) = None \<longleftrightarrow> caseValid c \<and> escalationValid e) \<and>
   fst (escalate w e (c\<lparr>case_status := s\<rparr>)) = fst (escalate w e c)"
proof -
  have outcome: "fst (escalate w e c) = None \<longleftrightarrow> caseValid c \<and> escalationValid e" for c
    by (simp add: escalate_save fst_case_save caseValid_frame caseValid_append)
  have "fst (escalate w e (c\<lparr>case_status := s\<rparr>)) = None \<longleftrightarrow> fst (escalate w e c) = None"
    unfolding outcome by (simp add: caseValid_frame)
  moreover have either:
    "fst (escalate w e c) = None \<or> fst (escalate w e c) = Some ValidationError" for c
    unfolding escalate_save by (rule fst_case_save_cases)
  ultimately have same: "fst (escalate w e (c\<lparr>case_status := s\<rparr>)) = fst (escalate w e c)"
    using either [of c] either [of "c\<lparr>case_status := s\<rparr>"] by auto
  have "case_status (snd (escalate w e c)) = ESCALATED \<and>
      escalations (snd (escalate w e c)) = escalations c @ [e] \<and>
      escalationDate (dates (snd (escalate w e c))) = Some (currentTime w)"
    by (simp add: escalate_save snd_case_save_same)
  with outcome [of c] either [of c] same show ?thesis
    by simp
qed

theorem C2_escalate_witness:
  "caseValid closedCase \<and> escalationValid slaBreach \<and>
   fst (escalate (clockAt 1707862400000) slaBreach closedCase) = None \<and>
   case_status (snd (escalate (clockAt 1707862400000) slaBreach closedCase)) = ESCALATED \<and>
   escalationDate (dates (snd (escalate (clockAt 1707862400000) slaBreach closedCase)))
     = Some 1707862400000 \<and>
   \<not> escalationValid (slaBreach\<lparr>level := 0\<rparr>) \<and>
   fst (escalate (clockAt 1707862400000) (slaBreach\<lparr>level := 0\<rparr>) closedCase)
     = Some ValidationError \<and>
   case_status (snd (escalate (clockAt 1707862400000) (slaBreach\<lparr>level := 0\<rparr>) closedCase))
     = ESCALATED"
  using C2_escalate [where w = "clockAt 1707862400000" and e = slaBreach and c = closedCase
      and s = NEW]
    C2_escalate [where w = "clockAt 1707862400000" and e = "slaBreach\<lparr>level := 0\<rparr>"
      and c = closedCase and s = NEW]
  by (auto simp: caseValid_def escalationValid_def closedCase_def openCase_def slaBreach_def
      clockAt_def)

section \<open>Aging\<close>

lemma overdueDays_Some:
  "dueDate (debt c) = Some due \<Longrightarrow> overdueDays now c = max 0 ((now - due) div 86400000)"
proof -
  assume due: "dueDate (debt c) = Some due"
  show ?thesis
  proof (cases "now < due")
    case True
    then have "(now - due) div 86400000 < 0"
      by (simp add: pos_imp_zdiv_neg_iff)
    with True due show ?thesis
      by (simp add: overdueDays_def)
  next
    case False
    then have "0 \<le> (now - due) div 86400000"
      by (simp add: pos_imp_zdiv_nonneg_iff)
    with False due show ?thesis
      by (simp add: overdueDays_def)
  qed
qed

lemma aging_preSaveAging:
  "dueDate (debt c) = Some due \<Longrightarrow>
   days (aging (preSaveAging now c)) = overdueDays now c \<and>
   category (aging (preSaveAging now c)) =
     (if overdueDays now c \<le> 0 then FRESH
      else if overdueDays now c \<le> 30 then LOW
      else if overdueDays now c \<le> 60 then MEDIUM
      else if overdueDays now c \<le> 90 then HIGH
      else CRITICAL)"
  by (simp add: preSaveAging_def Let_def)

text \<open>
  Claim C6. For a case with a due date, a save (one that the validators let through)
  sets \<open>aging.days\<close> to the whole days elapsed since the due date, a day being 86400000
  milliseconds, floored at 0, and \<open>aging.category\<close> by the thresholds on that number: at
  most 0 FRESH, 1 to 30 LOW, 31 to 60 MEDIUM, 61 to 90 HIGH, above 90 CRITICAL.
\<close>

theorem C6_aging:
  "caseValid c \<Longrightarrow> dueDate (debt c) = Some due \<Longrightarrow>
   fst (case_save w c) = None \<and>
   days (aging (snd (case_save w c))) = max 0 ((currentTime w - due) div 86400000) \<and>
   (days (aging (snd (case_save w c))) \<le> 0 \<longrightarrow>
      category (aging (snd (case_save w c))) = FRESH) \<and>
   (1 \<le> days (aging (snd (case_save w c))) \<and> days (aging (snd (case_save w c))) \<le> 30 \<longrightarrow>
      category (aging (snd (case_save w c))) = LOW) \<and>
   (31 \<le> days (aging (snd (case_save w c))) \<and> days (aging (snd (case_save w c))) \<le> 60 \<longrightarrow>
      category (aging (snd (case_save w c))) = MEDIUM) \<and>
   (61 \<le> days (aging (snd (case_save w c))) \<and> days (aging (snd (case_save w c))) \<le> 90 \<longrightarrow>
      category (aging (snd (case_save w c))) = HIGH) \<and>
   (90 < days (aging (snd (case_save w c))) \<longrightarrow>
      category (aging (snd (case_save w c))) = CRITICAL)"
proof -
  assume valid: "caseValid c" and due: "dueDate (debt c) = Some due"
  have saved: "aging (snd (case_save w c)) = aging (preSaveAging (currentTime w) c)"
    using valid by (simp add: snd_case_save aging_savedCase)
  have d: "days (aging (snd (case_save w c))) = overdueDays (currentTime w) c"
    using aging_preSaveAging [OF due] by (simp add: saved)
  have k: "category (aging (snd (case_save w c))) =
     (if overdueDays (currentTime w) c \<le> 0 then FRESH
      else if overdueDays (currentTime w) c \<le> 30 then LOW
      else if overdueDays (currentTime w) c \<le> 60 then MEDIUM
      else if overdueDays (currentTime w) c \<le> 90 then HIGH
      else CRITICAL)"
    using aging_preSaveAging [OF due] by (simp add: saved)
  have through: "fst (case_save w c) = None"
    using valid by (simp add: fst_case_save)
  have "days (aging (snd (case_save w c))) = max 0 ((currentTime w - due) div 86400000)"
    unfolding d by (rule overdueDays_Some [OF due])
  with through show ?thesis
    unfolding k d by simp
qed

theorem C6_aging_witness:
  "caseValid openCase \<and> dueDate (debt openCase) = Some 1700000000000 \<and>
   days (aging (snd (case_save (clockAt 1702592000000) openCase))) = 30 \<and>
   category (aging (snd (case_save (clockAt 1702592000000) openCase))) = LOW \<and>
   days (aging (snd (case_save (clockAt 1702678399999) openCase))) = 30 \<and>
   category (aging (snd (case_save (clockAt 1702678399999) openCase))) = LOW \<and>
   days (aging (snd (case_save (clockAt 1702678400000) openCase))) = 31 \<and>
   category (aging (snd (case_save (clockAt 1702678400000) openCase))) = MEDIUM \<and>
   days (aging (snd (case_save (clockAt 1707776000000) openCase))) = 90 \<and>
   category (aging (snd (case_save (clockAt 1707776000000) openCase))) = HIGH \<and>
   days (aging (snd (case_save (clockAt 1707862400000) openCase))) = 91 \<and>
   category (aging (snd (case_save (clockAt 1707862400000) openCase))) = CRITICAL \<and>
   days (aging (snd (case_save (clockAt 1700086399999) openCase))) = 0 \<and>
   category (aging (snd (case_save (clockAt 1700086399999) openCase))) = FRESH \<and>
   days (aging (snd (case_save (clockAt 1699000000000) openCase))) = 0 \<and>
   category (aging (snd (case_save (clockAt 1699000000000) openCase))) = FRESH"
proof -
  have valid: "caseValid openCase"
    by (simp add: caseValid_def openCase_def)
  have due: "dueDate (debt openCase) = Some 1700000000000"
    by (simp add: openCase_def)
  show ?thesis
    using valid due
      C6_aging [OF valid due, of "clockAt 1702592000000"]
      C6_aging [OF valid due, of "clockAt 1702678399999"]
      C6_aging [OF valid due, of "clockAt 1702678400000"]
      C6_aging [OF valid due, of "clockAt 1707776000000"]
      C6_aging [OF valid due, of "clockAt 1707862400000"]
      C6_aging [OF valid due, of "clockAt 1700086399999"]
      C6_aging [OF valid due, of "clockAt 1699000000000"]
    by (simp add: clockAt_def)
qed


section \<open>Recovery rate and remaining balance\<close>

text \<open>
  Claim C7. The recovery rate is the total paid (the sum of the COMPLETED payments)
  divided by the original amount, times 100, and 0 when the original amount is 0. A case
  of 1000 with one COMPLETED payment of 400 has a recovery rate of 40 and, once saved, a
  current amount of 600.
\<close>

theorem C7_recoveryRate:
  "(originalAmount (debt c) = 0 \<longrightarrow> recoveryRate c = 0) \<and>
   (originalAmount (debt c) \<noteq> 0 \<longrightarrow>
      recoveryRate c = totalPaid c / originalAmount (debt c) * 100) \<and>
   totalPaid c = (\<Sum>p\<leftarrow>filter (\<lambda>p. payment_status p = COMPLETED) (payments c). amount p) \<and>
   (originalAmount (debt c) = 1000 \<and> payments c = [p] \<and> payment_status p = COMPLETED \<and>
    amount p = 400 \<longrightarrow>
      recoveryRate c = 40 \<and> recoveryRate (snd (case_save w c)) = 40 \<and>
      (caseValid c \<longrightarrow>
         fst (case_save w c) = None \<and> currentAmount (debt (snd (case_save w c))) = 600))"
proof (intro conjI impI)
  show "totalPaid c = (\<Sum>p\<leftarrow>filter (\<lambda>p. payment_status p = COMPLETED) (payments c). amount p)"
    by (rule totalPaid_sum)
next
  assume "originalAmount (debt c) = 0"
  then show "recoveryRate c = 0"
    by (simp add: recoveryRate_def)
next
  assume "originalAmount (debt c) \<noteq> 0"
  then show "recoveryRate c = totalPaid c / originalAmount (debt c) * 100"
    by (simp add: recoveryRate_def)
next
  assume h: "originalAmount (debt c) = 1000 \<and> payments c = [p] \<and>
    payment_status p = COMPLETED \<and> amount p = 400"
  then have paid: "totalPaid c = 400"
    by (simp add: totalPaid_def)
  from h paid show rate: "recoveryRate c = 40"
    by (simp add: recoveryRate_def)
  from h paid show "recoveryRate (snd (case_save w c)) = 40"
    by (simp add: recoveryRate_def snd_case_save_same debt_case_save)
  assume valid: "caseValid c"
  then show "fst (case_save w c) = None"
    by (simp add: fst_case_save)
  from valid h paid show "currentAmount (debt (snd (case_save w c))) = 600"
    by (simp add: debt_case_save)
qed

theorem C7_recoveryRate_witness:
  "originalAmount (debt (openCase\<lparr>payments := [paid400]\<rparr>)) = 1000 \<and>
   payments (openCase\<lparr>payments := [paid400]\<rparr>) = [paid400] \<and>
   payment_status paid400 = COMPLETED \<and> amount paid400 = 400 \<and>
   caseValid (openCase\<lparr>payments := [paid400]\<rparr>) \<and>
   fst (case_save (clockAt 1700600000000) (openCase\<lparr>payments := [paid400]\<rparr>)) = None \<and>
   currentAmount (debt (snd (case_save (clockAt 1700600000000)
     (openCase\<lparr>payments := [paid400]\<rparr>)))) = 600 \<and>
   recoveryRate (snd (case_save (clockAt 1700600000000)
     (openCase\<lparr>payments := [paid400]\<rparr>))) = 40 \<and>
   originalAmount (debt (openCase\<lparr>debt := (debt openCase)\<lparr>originalAmount := 0\<rparr>,
     payments := [paid400]\<rparr>)) = 0 \<and>
   recoveryRate (openCase\<lparr>debt := (debt openCase)\<lparr>originalAmount := 0\<rparr>,
     payments := [paid400]\<rparr>) = 0"
  using C7_recoveryRate [where c = "openCase\<lparr>payments := [paid400]\<rparr>" and p = paid400
      and w = "clockAt 1700600000000"]
    C7_recoveryRate [where c = "openCase\<lparr>debt := (debt openCase)\<lparr>originalAmount := 0\<rparr>,
      payments := [paid400]\<rparr>" and p = paid400 and w = "clockAt 1700600000000"]
  by (simp add: caseValid_def paymentValid_def openCase_def paid400_def)

text \<open>
  Claim C9. The remaining balance is the current amount less the total paid, floored at
  0. On a saved case with a payment the current amount already is the original amount
  less the total paid, floored at 0, so the remaining balance takes the total paid off
  the original amount twice.
\<close>

theorem C9_remainingBalance:
  "remainingBalance c = max 0 (currentAmount (debt c) - totalPaid c) \<and>
   totalPaid c = (\<Sum>p\<leftarrow>filter (\<lambda>p. payment_status p = COMPLETED) (payments c). amount p) \<and>
   (caseValid c \<and> payments c \<noteq> [] \<longrightarrow>
      fst (case_save w c) = None \<and>
      currentAmount (debt (snd (case_save w c)))
        = max 0 (originalAmount (debt c) - totalPaid c) \<and>
      remainingBalance (snd (case_save w c))
        = max 0 (max 0 (originalAmount (debt c) - totalPaid c) - totalPaid c))"
proof -
  have "remainingBalance (snd (case_save w c))
      = max 0 (currentAmount (debt (snd (case_save w c))) - totalPaid c)"
    by (simp add: remainingBalance_def snd_case_save_same)
  then show ?thesis
    by (simp add: debt_case_save fst_case_save remainingBalance_def snd_case_save_same
        totalPaid_sum [symmetric])
qed

theorem C9_remainingBalance_witness:
  "caseValid (openCase\<lparr>payments := [paid400]\<rparr>) \<and>
   payments (openCase\<lparr>payments := [paid400]\<rparr>) \<noteq> [] \<and>
   totalPaid (openCase\<lparr>payments := [paid400]\<rparr>) = 400 \<and>
   fst (case_save (clockAt 1700600000000) (openCase\<lparr>payments := [paid400]\<rparr>)) = None \<and>
   currentAmount (debt (snd (case_save (clockAt 1700600000000)
     (openCase\<lparr>payments := [paid400]\<rparr>)))) = 600 \<and>
   remainingBalance (snd (case_save (clockAt 1700600000000)
     (openCase\<lparr>payments := [paid400]\<rparr>))) = 200"
  using C9_remainingBalance [where c = "openCase\<lparr>payments := [paid400]\<rparr>"
      and w = "clockAt 1700600000000"]
  by (simp add: caseValid_def paymentValid_def openCase_def paid400_def)


section \<open>Recording a communication\<close>








end
